theory Spec2Isabelle
  imports Main
begin

section \<open>Data model\<close>

text \<open>
  The service (\<^verbatim>\<open>app.ts\<close>) reads rows of the \<^verbatim>\<open>Tx\<close> entity, asks a Substrate node
  for a block, walks the block's extrinsics and writes two settlement fields back.

  An extrinsic is kept with exactly what the handlers read from it: the call's
  \<^verbatim>\<open>section\<close> and \<^verbatim>\<open>method\<close>, the renderings \<^verbatim>\<open>args.map((a) => a.toString())\<close>,
  the rendering \<^verbatim>\<open>ex.hash.toHex()\<close>, and the fields that only reach the console
  (\<^verbatim>\<open>isSigned\<close>, \<^verbatim>\<open>signer\<close>, \<^verbatim>\<open>nonce\<close>). Console output is not modelled: no
  logging statement of the source can throw or change a variable.
\<close>

record Operation =
  op_section :: string
  op_method :: string
  op_args :: "string list"
  op_hash :: string
  isSigned :: bool
  signer :: string
  nonce :: string

type_synonym Block = "Operation list"

text \<open>
  Modelled from the spec: the entity \<^verbatim>\<open>./entity/Tx\<close> is imported by the handlers and is
  not among the sources. The record has the fields of the spec's TransactionRecord;
  the two settlement fields are optional (\<open>None\<close> is a column holding no value, which
  the handlers see as \<^verbatim>\<open>null\<close> or \<^verbatim>\<open>undefined\<close>).
\<close>

record Tx =
  tx_id :: nat
  from_eth_address :: string
  to_glitch_address :: string
  tx_eth_hash :: string
  tx_glitch_hash :: string
  net_amount :: "string option"
  extrinsic_hash :: "string option"

text \<open>
  \<^verbatim>\<open>TypeError\<close> is what JavaScript raises on a property access on \<^verbatim>\<open>undefined\<close>;
  \<^verbatim>\<open>NodeError\<close> stands for a rejection coming from a remote call; \<^verbatim>\<open>QueryError\<close> is
  the rejection of a repository query whose \<^verbatim>\<open>take\<close> is not a number.
\<close>

datatype error = TypeError | NodeError string | QueryError

text \<open>
  The node: \<^verbatim>\<open>api.rpc.chain.getBlock(hash)\<close> either rejects (\<open>Inl\<close>, with the
  rendering of the error) or resolves to the block's extrinsics.
\<close>

type_synonym chain = "string \<Rightarrow> string + Block"

text \<open>
  A JavaScript condition on a string-or-absent value: \<^verbatim>\<open>undefined\<close>, \<^verbatim>\<open>null\<close> and
  the empty string are falsy, every other string is truthy.
\<close>

definition truthy :: "string option \<Rightarrow> bool" where
  "truthy v = (case v of None \<Rightarrow> False | Some s \<Rightarrow> s \<noteq> [])"

text \<open>\<^verbatim>\<open>Array.prototype.at(i)\<close> for an index \<open>i \<ge> 0\<close>: \<^verbatim>\<open>undefined\<close> out of range.\<close>

definition at_index :: "'a list \<Rightarrow> nat \<Rightarrow> 'a option" where
  "at_index xs i = (if i < length xs then Some (xs ! i) else None)"

text \<open>
  A query parameter as \<^verbatim>\<open>request.query\<close> holds it, by what the handler does with it:
  \<open>Absent\<close> is a missing parameter or the empty text, the values that \<^verbatim>\<open>||\<close> replaces by
  its default; \<open>Numeric n\<close> is any other value that \<^verbatim>\<open>Number\<close> converts to the integer
  \<open>n\<close> (the text \<^verbatim>\<open>0\<close> is one: a non-empty text is truthy); \<open>NotNumeric\<close> is any other
  value that \<^verbatim>\<open>Number\<close> converts to \<^verbatim>\<open>NaN\<close>. Values that convert to a fraction or to an
  infinity are not represented: what a query with such a limit returns is decided by
  the SQL dialect alone. A JavaScript number is then an integer or \<^verbatim>\<open>NaN\<close>, and a
  product with \<^verbatim>\<open>NaN\<close> is \<^verbatim>\<open>NaN\<close>. Products are exact here; JavaScript rounds
  them only beyond \<open>2 ^ 53\<close>, which no count of rows reaches.
\<close>

datatype query_param = Absent | Numeric int | NotNumeric

datatype jsnumber = NaN | Num int

definition number_or :: "int \<Rightarrow> query_param \<Rightarrow> jsnumber" where
  "number_or d q = (case q of Absent \<Rightarrow> Num d | Numeric n \<Rightarrow> Num n | NotNumeric \<Rightarrow> NaN)"

definition js_times :: "jsnumber \<Rightarrow> jsnumber \<Rightarrow> jsnumber" where
  "js_times a b =
     (case a of NaN \<Rightarrow> NaN | Num x \<Rightarrow> (case b of NaN \<Rightarrow> NaN | Num y \<Rightarrow> Num (x * y)))"

section \<open>The filtered scan: \<^verbatim>\<open>getGlitchInfo\<close> of \<^verbatim>\<open>src/api/src/app.ts\<close>\<close>

text \<open>
  The pair \<open>(netAmount, extrinsicHash)\<close> of local variables starts as
  \<open>(None, None)\<close> (declared, not assigned). The \<^verbatim>\<open>forEach\<close> callback runs for each
  extrinsic in order and cannot leave the loop early, except by throwing:
  \<^verbatim>\<open>args[0].toString()\<close> is evaluated only after both string comparisons succeeded
  (\<^verbatim>\<open>&&\<close>), and throws a \<^verbatim>\<open>TypeError\<close> when \<^verbatim>\<open>args\<close> is empty.
\<close>

definition is_transfer :: "Operation \<Rightarrow> bool" where
  "is_transfer ex = (op_section ex = ''balances'' \<and> op_method ex = ''transfer'')"

fun getGlitchInfo_forEach ::
  "string \<Rightarrow> Block \<Rightarrow> string option \<times> string option \<Rightarrow> error + (string option \<times> string option)"
where
  "getGlitchInfo_forEach toGlitchAddress [] acc = Inr acc"
| "getGlitchInfo_forEach toGlitchAddress (ex # exs) acc =
     (if is_transfer ex then
        (case at_index (op_args ex) 0 of
           None \<Rightarrow> Inl TypeError
         | Some a0 \<Rightarrow>
             if a0 = toGlitchAddress
             then getGlitchInfo_forEach toGlitchAddress exs
                    (at_index (op_args ex) 1, Some (op_hash ex))
             else getGlitchInfo_forEach toGlitchAddress exs acc)
      else getGlitchInfo_forEach toGlitchAddress exs acc)"

text \<open>
  The whole function: a rejected \<^verbatim>\<open>getBlock\<close> is caught and logged, which leaves
  \<^verbatim>\<open>signedBlock\<close> undefined, so that \<^verbatim>\<open>signedBlock.block\<close> throws a \<^verbatim>\<open>TypeError\<close>.
\<close>

definition getGlitchInfo ::
  "chain \<Rightarrow> string \<Rightarrow> string \<Rightarrow> error + (string option \<times> string option)"
where
  "getGlitchInfo getBlock glitchHash toGlitchAddress =
     (case getBlock glitchHash of
        Inl e \<Rightarrow> Inl TypeError
      | Inr exs \<Rightarrow> getGlitchInfo_forEach toGlitchAddress exs (None, None))"

text \<open>The predicate the scan tests on each extrinsic, for extrinsics with a first argument.\<close>

definition matches :: "string \<Rightarrow> Operation \<Rightarrow> bool" where
  "matches toGlitchAddress ex =
     (is_transfer ex \<and> at_index (op_args ex) 0 = Some toGlitchAddress)"

text \<open>A transfer call rendered without any argument: the input on which the scan throws.\<close>

definition bare_transfer :: "Operation \<Rightarrow> bool" where
  "bare_transfer ex = (is_transfer ex \<and> op_args ex = [])"

section \<open>The store and the node calls\<close>

text \<open>
  The table of \<^verbatim>\<open>Tx\<close> rows is a list in the order the database returns them; the
  primary key \<open>tx_id\<close> is unique in a well-formed table (\<open>distinct_ids\<close>).
  Next to the table the state records, in order, every use a handler makes of the
  node connection \<^verbatim>\<open>api\<close>: a call \<^verbatim>\<open>api.rpc.chain.getBlock(hash)\<close>, or a call
  \<^verbatim>\<open>getGlitchInfo(tx, api)\<close> of the helper that \<^verbatim>\<open>part_000\<close> imports.
\<close>

datatype node_call = GetBlock string | GetGlitchInfo nat

record world =
  store :: "Tx list"
  node_calls :: "node_call list"

definition distinct_ids :: "Tx list \<Rightarrow> bool" where
  "distinct_ids rows = distinct (map tx_id rows)"

text \<open>
  The repository calls of TypeORM, by their documented contract.
  \<^verbatim>\<open>findOne({tx_eth_hash: h})\<close> gives the first row with that hash, or \<^verbatim>\<open>undefined\<close>.
  \<^verbatim>\<open>find({where: [a, b]})\<close> gives the rows satisfying \<open>a\<close> or \<open>b\<close>.
  With \<^verbatim>\<open>take\<close> and \<^verbatim>\<open>skip\<close>: the handler's \<^verbatim>\<open>take\<close> is a non-empty text or the
  number 10, so it is always applied, after conversion with \<^verbatim>\<open>Number\<close>, and the query
  is rejected when that is \<^verbatim>\<open>NaN\<close>; the handler's \<^verbatim>\<open>skip\<close> is a number and is applied
  only when truthy, that is neither 0 nor \<^verbatim>\<open>NaN\<close>. The statement built has a
  \<^verbatim>\<open>LIMIT\<close> only for a take other than 0, so a take of 0 returns every row. A negative
  \<^verbatim>\<open>LIMIT\<close> is read as no limit and a negative \<^verbatim>\<open>OFFSET\<close> as 0, as SQLite does.
  \<^verbatim>\<open>save(tx)\<close> updates the row whose primary key is \<^verbatim>\<open>tx.id\<close> and skips every
  property of \<^verbatim>\<open>tx\<close> that is \<^verbatim>\<open>undefined\<close>, which leaves that column as it is.
\<close>

definition findOne :: "string \<Rightarrow> Tx list \<Rightarrow> Tx option" where
  "findOne eth_tx rows = List.find (\<lambda>t. tx_eth_hash t = eth_tx) rows"

definition find_where :: "string \<Rightarrow> Tx list \<Rightarrow> Tx list" where
  "find_where wallet rows =
     filter (\<lambda>t. from_eth_address t = wallet \<or> to_glitch_address t = wallet) rows"

definition offset_rows :: "jsnumber \<Rightarrow> 'a list \<Rightarrow> 'a list" where
  "offset_rows skip_v xs = (case skip_v of NaN \<Rightarrow> xs | Num k \<Rightarrow> drop (nat k) xs)"

definition limit_rows :: "int \<Rightarrow> 'a list \<Rightarrow> 'a list" where
  "limit_rows l xs = (if 0 < l then take (nat l) xs else xs)"

definition find_paged :: "jsnumber \<Rightarrow> jsnumber \<Rightarrow> string \<Rightarrow> Tx list \<Rightarrow> error + Tx list" where
  "find_paged take_v skip_v wallet rows =
     (case take_v of
        NaN \<Rightarrow> Inl QueryError
      | Num l \<Rightarrow> Inr (limit_rows l (offset_rows skip_v (find_where wallet rows))))"

definition keep :: "'a option \<Rightarrow> 'a option \<Rightarrow> 'a option" where
  "keep new old = (case new of None \<Rightarrow> old | Some v \<Rightarrow> Some v)"

definition save :: "Tx \<Rightarrow> Tx list \<Rightarrow> Tx list" where
  "save tx rows =
     map (\<lambda>r. if tx_id r = tx_id tx
               then tx\<lparr>net_amount := keep (net_amount tx) (net_amount r),
                       extrinsic_hash := keep (extrinsic_hash tx) (extrinsic_hash r)\<rparr>
               else r) rows"

text \<open>The test both enrichment guards of \<^verbatim>\<open>app.ts\<close> make: \<^verbatim>\<open>tx.extrinsic_hash && tx.net_amount\<close>.\<close>

definition settled :: "Tx \<Rightarrow> bool" where
  "settled tx = (truthy (extrinsic_hash tx) \<and> truthy (net_amount tx))"

text \<open>
  The part of the pairing of the two settlement fields that the writes maintain: a row
  that has a net amount has an extrinsic hash.
\<close>

definition amount_has_hash :: "Tx \<Rightarrow> bool" where
  "amount_has_hash r = (net_amount r \<noteq> None \<longrightarrow> extrinsic_hash r \<noteq> None)"

section \<open>Responses\<close>

text \<open>
  A handler either sends one response (status and JSON body; the status is 200 unless
  \<^verbatim>\<open>response.status\<close> is called) or its promise rejects before any response is sent
  (\<open>Inl\<close>). In a JSON body an \<^verbatim>\<open>undefined\<close> member is left out: \<open>None\<close>.
\<close>

record HistoryEntry =
  entry_tx :: Tx
  glitch_fee :: "string option"
  glitch_timestamp :: "string option"
  eth_timestamp :: "nat option"

datatype body =
    InfoBody "string option" "string option"
  | ErrorBody string
  | TxsBody "Tx list"
  | EntriesBody "HistoryEntry list"

type_synonym outcome = "error + (nat \<times> body)"

section \<open>\<^verbatim>\<open>GET /api/transactionInfo/:eth_tx\<close> (both source files)\<close>

text \<open>
  The unconditional loop: every extrinsic assigns both variables, so the values of the
  last one remain. \<^verbatim>\<open>x.at(1)\<close> is \<^verbatim>\<open>undefined\<close> for fewer than two arguments.
\<close>

fun transactionInfo_forEach ::
  "Block \<Rightarrow> string option \<times> string option \<Rightarrow> string option \<times> string option"
where
  "transactionInfo_forEach [] acc = acc"
| "transactionInfo_forEach (ex # exs) acc =
     transactionInfo_forEach exs (at_index (op_args ex) 1, Some (op_hash ex))"

text \<open>
  The handler, in the order of the source: \<^verbatim>\<open>findOne\<close>; the test
  \<^verbatim>\<open>tx.extrinsic_hash && tx.net_amount\<close>, which reads a property of \<^verbatim>\<open>tx\<close> and so throws
  a \<^verbatim>\<open>TypeError\<close> when \<^verbatim>\<open>tx\<close> is \<^verbatim>\<open>undefined\<close> (the first branch below); only then
  the test \<^verbatim>\<open>!tx\<close>; the block fetch, whose rejection is answered with status 400; the
  loop; the assignment of both fields; \<^verbatim>\<open>save\<close>; the response.
\<close>

definition transactionInfo :: "chain \<Rightarrow> string \<Rightarrow> world \<Rightarrow> outcome \<times> world" where
  "transactionInfo getBlock eth_tx w =
     (let tx = findOne eth_tx (store w) in
      case tx of
        None \<Rightarrow> (Inl TypeError, w)
      | Some t \<Rightarrow>
          if settled t then
            (Inr (200, InfoBody (net_amount t) (extrinsic_hash t)), w)
          else if tx = None then
            (Inr (400, ErrorBody (''No transaction found with id '' @ eth_tx)), w)
          else
            (let w1 = w\<lparr>node_calls := node_calls w @ [GetBlock (tx_glitch_hash t)]\<rparr> in
             case getBlock (tx_glitch_hash t) of
               Inl e \<Rightarrow>
                 (Inr (400, ErrorBody (''Error getting information from the block: '' @ e)),
                  w1)
             | Inr exs \<Rightarrow>
                 (case transactionInfo_forEach exs (None, None) of
                    (netAmount, extrinsicHash) \<Rightarrow>
                      (Inr (200, InfoBody netAmount extrinsicHash),
                       w1\<lparr>store :=
                            save (t\<lparr>net_amount := netAmount, extrinsic_hash := extrinsicHash\<rparr>)
                              (store w1)\<rparr>))))"

section \<open>\<^verbatim>\<open>GET /api/transactionHistory/:wallet\<close> of \<^verbatim>\<open>src/api/src/app.ts\<close>\<close>

text \<open>
  For each row found: a settled row is only logged; for any other row
  \<^verbatim>\<open>getGlitchInfo\<close> is started, and when it resolves both fields are assigned from its
  result and the row is saved; when it rejects the error is logged. The handler does
  not wait for these promises: the response carries the rows as they were found, and
  the state returned here is the one reached when all of them have completed. Each
  promise saves the row it was started for, so the rows are handled one after the other.
\<close>

definition enrich :: "chain \<Rightarrow> Tx \<Rightarrow> world \<Rightarrow> world" where
  "enrich getBlock tx w =
     (if settled tx then w
      else
        (let w1 = w\<lparr>node_calls := node_calls w @ [GetBlock (tx_glitch_hash tx)]\<rparr> in
         case getGlitchInfo getBlock (tx_glitch_hash tx) (to_glitch_address tx) of
           Inl e \<Rightarrow> w1
         | Inr (netAmount, extrinsicHash) \<Rightarrow>
             w1\<lparr>store :=
                  save (tx\<lparr>extrinsic_hash := extrinsicHash, net_amount := netAmount\<rparr>)
                    (store w1)\<rparr>))"

definition transactionHistory :: "chain \<Rightarrow> string \<Rightarrow> world \<Rightarrow> outcome \<times> world" where
  "transactionHistory getBlock wallet w =
     (let txs = find_where wallet (store w)
      in (Inr (200, TxsBody txs), fold (enrich getBlock) txs w))"

section \<open>\<^verbatim>\<open>GET /api/transactionHistory/:wallet\<close> of \<^verbatim>\<open>src/unnamed/part_000\<close>\<close>

text \<open>
  This version imports \<^verbatim>\<open>getGlitchInfo\<close> from \<^verbatim>\<open>./glitch\<close>, which is not among the
  sources: the helper is a parameter of the model, a function from the row to a
  rejection or to the object whose four members the handler reads.
  The Ethereum provider is a parameter too: \<^verbatim>\<open>getTransaction\<close> gives the block number
  of a transaction and \<^verbatim>\<open>getBlock\<close> the timestamp of a block; \<open>None\<close> is any failure
  inside the second \<^verbatim>\<open>try\<close>, which is caught and logged.
\<close>

record GlitchInfo =
  extrinsicHash :: "string option"
  netAmount :: "string option"
  glitchFee :: "string option"
  timestamp :: "string option"

type_synonym glitch_helper = "Tx \<Rightarrow> error + GlitchInfo"

text \<open>
  One row: the response starts as a copy of the row (\<^verbatim>\<open>{ ...tx }\<close>), taken before
  anything is assigned. The helper is awaited first, for every row; the guard
  \<^verbatim>\<open>!tx.extrinsic_hash && !tx.net_amount\<close> decides whether its result is saved.
\<close>

definition enrich_part000 ::
  "glitch_helper \<Rightarrow> (string \<Rightarrow> nat option) \<Rightarrow> (nat \<Rightarrow> nat option) \<Rightarrow> Tx \<Rightarrow> world
     \<Rightarrow> HistoryEntry \<times> world"
where
  "enrich_part000 helper getTransaction ethGetBlock tx w =
     (let response0 =
            \<lparr>entry_tx = tx, glitch_fee = None, glitch_timestamp = None, eth_timestamp = None\<rparr>;
          w1 = w\<lparr>node_calls := node_calls w @ [GetGlitchInfo (tx_id tx)]\<rparr>;
          step1 =
            (case helper tx of
               Inl e \<Rightarrow> (response0, w1)
             | Inr glitchInfo \<Rightarrow>
                 (response0\<lparr>glitch_fee := glitchFee glitchInfo,
                            glitch_timestamp := timestamp glitchInfo\<rparr>,
                  if \<not> truthy (extrinsic_hash tx) \<and> \<not> truthy (net_amount tx)
                  then w1\<lparr>store :=
                            save (tx\<lparr>extrinsic_hash := extrinsicHash glitchInfo,
                                     net_amount := netAmount glitchInfo\<rparr>)
                              (store w1)\<rparr>
                  else w1));
          response2 =
            (case getTransaction (tx_eth_hash tx) of
               None \<Rightarrow> fst step1
             | Some blockNumber \<Rightarrow>
                 (case ethGetBlock blockNumber of
                    None \<Rightarrow> fst step1
                  | Some ts \<Rightarrow> (fst step1)\<lparr>eth_timestamp := Some ts\<rparr>))
      in (response2, snd step1))"

fun map_enrich_part000 ::
  "glitch_helper \<Rightarrow> (string \<Rightarrow> nat option) \<Rightarrow> (nat \<Rightarrow> nat option) \<Rightarrow> Tx list \<Rightarrow> world
     \<Rightarrow> HistoryEntry list \<times> world"
where
  "map_enrich_part000 helper getTransaction ethGetBlock [] w = ([], w)"
| "map_enrich_part000 helper getTransaction ethGetBlock (tx # txs) w =
     (case enrich_part000 helper getTransaction ethGetBlock tx w of
        (entry, w1) \<Rightarrow>
          (case map_enrich_part000 helper getTransaction ethGetBlock txs w1 of
             (entries, w2) \<Rightarrow> (entry # entries, w2)))"

text \<open>
  The handler: \<^verbatim>\<open>page\<close> is \<^verbatim>\<open>request.query.page || 0\<close> and \<^verbatim>\<open>limit\<close> is
  \<^verbatim>\<open>request.query.limit || 10\<close>; \<^verbatim>\<open>find\<close> is awaited with \<^verbatim>\<open>take: limit\<close> and
  \<^verbatim>\<open>skip: limit * page\<close>, and when it rejects the handler's promise rejects and no
  response is sent.
\<close>

definition transactionHistory_part000 ::
  "glitch_helper \<Rightarrow> (string \<Rightarrow> nat option) \<Rightarrow> (nat \<Rightarrow> nat option) \<Rightarrow> string
     \<Rightarrow> query_param \<Rightarrow> query_param \<Rightarrow> world \<Rightarrow> outcome \<times> world"
where
  "transactionHistory_part000 helper getTransaction ethGetBlock wallet query_page query_limit w =
     (let page = number_or 0 query_page;
          limit = number_or 10 query_limit
      in case find_paged limit (js_times limit page) wallet (store w) of
           Inl e \<Rightarrow> (Inl e, w)
         | Inr txs \<Rightarrow>
             (case map_enrich_part000 helper getTransaction ethGetBlock txs w of
                (entries, w') \<Rightarrow> (Inr (200, EntriesBody entries), w')))"

section \<open>Requests in flight\<close>

text \<open>
  The handlers do not write in one step with their read. \<^verbatim>\<open>transactionInfo\<close> reads the
  row, awaits the block and saves without reading again; the history handler of
  \<^verbatim>\<open>app.ts\<close> answers before its saves are made; the one of \<^verbatim>\<open>part_000\<close> does not await
  its saves. Between the read of a request and the landing of its write other requests
  can read and other writes can land.

  A write in flight is the object a handler holds once it has assigned the two fields
  and not yet saved: the row as it was read, and the two values. A request, when it
  reads the table, issues the writes below (none for a settled row, for a rejected
  fetch or helper, or for a rejected query); the block of a hash and the answer of the
  helper do not depend on when they are asked. A schedule is a list of events: a
  request arrives and reads, or the write at some position of the list in flight lands.
\<close>

record pending_write =
  as_read :: Tx
  new_amount :: "string option"
  new_hash :: "string option"

definition apply_write :: "pending_write \<Rightarrow> Tx list \<Rightarrow> Tx list" where
  "apply_write p rows =
     save ((as_read p)\<lparr>net_amount := new_amount p, extrinsic_hash := new_hash p\<rparr>) rows"

definition info_writes :: "chain \<Rightarrow> string \<Rightarrow> Tx list \<Rightarrow> pending_write list" where
  "info_writes getBlock eth_tx rows =
     (case findOne eth_tx rows of
        None \<Rightarrow> []
      | Some t \<Rightarrow>
          if settled t then []
          else
            (case getBlock (tx_glitch_hash t) of
               Inl e \<Rightarrow> []
             | Inr exs \<Rightarrow>
                 (case transactionInfo_forEach exs (None, None) of
                    (amount, ehash) \<Rightarrow>
                      [\<lparr>as_read = t, new_amount = amount, new_hash = ehash\<rparr>])))"

definition history_write :: "chain \<Rightarrow> Tx \<Rightarrow> pending_write list" where
  "history_write getBlock tx =
     (if settled tx then []
      else
        (case getGlitchInfo getBlock (tx_glitch_hash tx) (to_glitch_address tx) of
           Inl e \<Rightarrow> []
         | Inr (amount, ehash) \<Rightarrow>
             [\<lparr>as_read = tx, new_amount = amount, new_hash = ehash\<rparr>]))"

definition part000_write :: "glitch_helper \<Rightarrow> Tx \<Rightarrow> pending_write list" where
  "part000_write helper tx =
     (case helper tx of
        Inl e \<Rightarrow> []
      | Inr glitchInfo \<Rightarrow>
          if \<not> truthy (extrinsic_hash tx) \<and> \<not> truthy (net_amount tx)
          then [\<lparr>as_read = tx, new_amount = netAmount glitchInfo,
                 new_hash = extrinsicHash glitchInfo\<rparr>]
          else [])"

datatype request =
    History string
  | HistoryPaged string query_param query_param
  | Info string

fun writes_of :: "chain \<Rightarrow> glitch_helper \<Rightarrow> request \<Rightarrow> Tx list \<Rightarrow> pending_write list" where
  "writes_of getBlock helper (History wallet) rows =
     concat (map (history_write getBlock) (find_where wallet rows))"
| "writes_of getBlock helper (HistoryPaged wallet query_page query_limit) rows =
     (case find_paged (number_or 10 query_limit)
             (js_times (number_or 10 query_limit) (number_or 0 query_page)) wallet rows of
        Inl e \<Rightarrow> []
      | Inr txs \<Rightarrow> concat (map (part000_write helper) txs))"
| "writes_of getBlock helper (Info eth_tx) rows = info_writes getBlock eth_tx rows"

datatype event = Arrive request | Land nat

record sched =
  table :: "Tx list"
  in_flight :: "pending_write list"

fun exec_event :: "chain \<Rightarrow> glitch_helper \<Rightarrow> event \<Rightarrow> sched \<Rightarrow> sched" where
  "exec_event getBlock helper (Arrive r) s =
     s\<lparr>in_flight := in_flight s @ writes_of getBlock helper r (table s)\<rparr>"
| "exec_event getBlock helper (Land k) s =
     (if k < length (in_flight s)
      then \<lparr>table = apply_write (in_flight s ! k) (table s),
            in_flight = take k (in_flight s) @ drop (Suc k) (in_flight s)\<rparr>
      else s)"

definition exec :: "chain \<Rightarrow> glitch_helper \<Rightarrow> event list \<Rightarrow> sched \<Rightarrow> sched" where
  "exec getBlock helper evs s = fold (exec_event getBlock helper) evs s"

text \<open>What holds of every write in flight: its row was read unsettled, and its amount
  comes with a hash.\<close>

definition read_unsettled :: "pending_write \<Rightarrow> bool" where
  "read_unsettled p = (\<not> settled (as_read p))"

definition write_paired :: "pending_write \<Rightarrow> bool" where
  "write_paired p = (new_amount p \<noteq> None \<longrightarrow> new_hash p \<noteq> None)"

section \<open>Concrete blocks, rows and nodes\<close>

definition mk_op :: "string \<Rightarrow> string \<Rightarrow> string list \<Rightarrow> string \<Rightarrow> Operation" where
  "mk_op s m as h =
     \<lparr>op_section = s, op_method = m, op_args = as, op_hash = h,
      isSigned = False, signer = [], nonce = []\<rparr>"

text \<open>The spec's scenario block: a remark, then two transfers to \<^verbatim>\<open>0xAA\<close>.\<close>

definition scenario_block :: Block where
  "scenario_block =
     [mk_op ''system'' ''remark'' [] ''0x01'',
      mk_op ''balances'' ''transfer'' [''0xAA'', ''100''] ''0x02'',
      mk_op ''balances'' ''transfer'' [''0xAA'', ''999''] ''0x03'']"

text \<open>A block holding a transfer call without arguments, and one holding a single-argument call.\<close>

definition bare_block :: Block where
  "bare_block = [mk_op ''balances'' ''transfer'' [] ''0x07'']"

definition mixed_block :: Block where
  "mixed_block =
     [mk_op ''system'' ''remark'' [''0x'' ] ''0x08'',
      mk_op ''balances'' ''transfer'' [] ''0x09'']"

definition short_block :: Block where
  "short_block = [mk_op ''balances'' ''transfer'' [''0xAA''] ''0x0b'']"

definition inherent_block :: Block where
  "inherent_block = [mk_op ''timestamp'' ''set'' [''1650000000000''] ''0x0a'']"

text \<open>A block on which the two loops disagree: the transfer comes first, another call last.\<close>

definition race_block :: Block where
  "race_block =
     [mk_op ''balances'' ''transfer'' [''0xAA'', ''100''] ''0x02'',
      mk_op ''system'' ''remark'' [''0x00'', ''42''] ''0x0d'']"

definition demo_chain :: chain where
  "demo_chain h =
     (if h = ''0xB1'' then Inr scenario_block
      else if h = ''0xB0'' then Inr []
      else if h = ''0xB2'' then Inr inherent_block
      else if h = ''0xB3'' then Inr race_block
      else Inl ''unknown block'')"

definition mk_tx ::
  "nat \<Rightarrow> string \<Rightarrow> string \<Rightarrow> string option \<Rightarrow> string option \<Rightarrow> Tx" where
  "mk_tx i eth glitch amount ehash =
     \<lparr>tx_id = i, from_eth_address = ''0xE0'', to_glitch_address = ''0xAA'',
      tx_eth_hash = eth, tx_glitch_hash = glitch,
      net_amount = amount, extrinsic_hash = ehash\<rparr>"

definition tx_done :: Tx where
  "tx_done = mk_tx 1 ''0xE1'' ''0xB1'' (Some ''100'') (Some ''0x02'')"

definition tx_empty_block :: Tx where
  "tx_empty_block = mk_tx 2 ''0xE2'' ''0xB0'' None None"

definition tx_inherent :: Tx where
  "tx_inherent = mk_tx 3 ''0xE3'' ''0xB2'' None None"

definition tx_half :: Tx where
  "tx_half = mk_tx 4 ''0xE4'' ''0xB1'' None (Some ''0x0a'')"

definition tx_plain :: Tx where
  "tx_plain = mk_tx 5 ''0xE5'' ''0xB1'' None None"

definition tx_race :: Tx where
  "tx_race = mk_tx 6 ''0xE6'' ''0xB3'' None None"

definition sched_of :: "Tx list \<Rightarrow> sched" where
  "sched_of rows = \<lparr>table = rows, in_flight = []\<rparr>"

definition late_write_schedule :: "event list" where
  "late_write_schedule = [Arrive (History ''0xAA''), Arrive (Info ''0xE6''), Land 0, Land 0]"

definition world_of :: "Tx list \<Rightarrow> world" where
  "world_of rows = \<lparr>store = rows, node_calls = []\<rparr>"

definition demo_helper :: glitch_helper where
  "demo_helper tx =
     Inr \<lparr>extrinsicHash = Some ''0x03'', netAmount = Some ''999'',
          glitchFee = Some ''1'', timestamp = Some ''1650000000''\<rparr>"

definition no_eth_tx :: "string \<Rightarrow> nat option" where
  "no_eth_tx h = None"

definition no_eth_block :: "nat \<Rightarrow> nat option" where
  "no_eth_block n = None"

section \<open>Properties of the filtered scan\<close>

lemma forEach_bare_transfer:
  "list_ex bare_transfer exs \<Longrightarrow> getGlitchInfo_forEach t exs acc = Inl TypeError"
  by (induction exs arbitrary: acc)
     (auto simp: bare_transfer_def at_index_def split: option.splits)

lemma forEach_last_match:
  "\<not> list_ex bare_transfer exs \<Longrightarrow>
   getGlitchInfo_forEach t exs acc =
     Inr (case filter (matches t) exs of
            [] \<Rightarrow> acc
          | m # ms \<Rightarrow> (at_index (op_args (last (m # ms))) 1, Some (op_hash (last (m # ms)))))"
proof (induction exs arbitrary: acc)
  case Nil
  then show ?case by simp
next
  case (Cons ex exs)
  then have rest: "\<not> list_ex bare_transfer exs" and here: "\<not> bare_transfer ex"
    by simp_all
  show ?case
  proof (cases "matches t ex")
    case True
    then show ?thesis
      using Cons.IH [OF rest] by (simp add: matches_def split: list.splits)
  next
    case False
    then show ?thesis
      using Cons.IH [OF rest] here
      by (auto simp: matches_def bare_transfer_def at_index_def split: list.splits option.splits)
  qed
qed

section \<open>Claims about the filtered scan\<close>

text \<open>
  C1 (as amended). The scan of \<^verbatim>\<open>getGlitchInfo\<close> keeps assigning: for a block without
  an argument-less transfer call and with at least one extrinsic whose section is
  \<^verbatim>\<open>balances\<close>, whose method is \<^verbatim>\<open>transfer\<close> and whose first argument is the target
  address, it returns the second argument (absent when there is none) and the hash of
  the LAST such extrinsic in the block's order.
\<close>

theorem getGlitchInfo_last_match_wins:
  assumes "\<not> list_ex bare_transfer exs" and "list_ex (matches t) exs"
  shows "getGlitchInfo_forEach t exs (None, None) =
           Inr (at_index (op_args (last (filter (matches t) exs))) 1,
                Some (op_hash (last (filter (matches t) exs))))"
proof -
  from assms(2) have "filter (matches t) exs \<noteq> []"
    by (simp add: list_ex_iff filter_empty_conv)
  then obtain m ms where "filter (matches t) exs = m # ms"
    by (cases "filter (matches t) exs") auto
  then show ?thesis
    using forEach_last_match [OF assms(1), of t "(None, None)"] by simp
qed

text \<open>The spec's scenario satisfies both hypotheses; the scan answers with the second transfer.\<close>

theorem getGlitchInfo_last_match_wins_witness:
  "\<not> list_ex bare_transfer scenario_block \<and> list_ex (matches ''0xAA'') scenario_block \<and>
   getGlitchInfo_forEach ''0xAA'' scenario_block (None, None) =
     Inr (at_index (op_args (last (filter (matches ''0xAA'') scenario_block))) 1,
          Some (op_hash (last (filter (matches ''0xAA'') scenario_block))))"
proof -
  have h1: "\<not> list_ex bare_transfer scenario_block"
    by (simp add: scenario_block_def mk_op_def bare_transfer_def is_transfer_def)
  have h2: "list_ex (matches ''0xAA'') scenario_block"
    by (simp add: scenario_block_def mk_op_def matches_def is_transfer_def at_index_def)
  show ?thesis
    using getGlitchInfo_last_match_wins [OF h1 h2] h1 h2 by simp
qed

text \<open>
  C1 as the spec states it fails on its own scenario: the first extrinsic that
  satisfies the predicate carries \<^verbatim>\<open>100\<close>, and the scan returns \<^verbatim>\<open>999\<close> with the hash
  of the third extrinsic.
\<close>

theorem getGlitchInfo_first_match_counterexample:
  "List.find (matches ''0xAA'') scenario_block =
     Some (mk_op ''balances'' ''transfer'' [''0xAA'', ''100''] ''0x02'') \<and>
   getGlitchInfo_forEach ''0xAA'' scenario_block (None, None) = Inr (Some ''999'', Some ''0x03'') \<and>
   getGlitchInfo_forEach ''0xAA'' scenario_block (None, None) \<noteq> Inr (Some ''100'', Some ''0x02'')"
  by (simp add: scenario_block_def mk_op_def matches_def is_transfer_def at_index_def)

text \<open>
  C3 (as amended). On every block in which each \<^verbatim>\<open>balances.transfer\<close> call has at least
  one argument, whatever else the block holds, the scan returns normally, and what it
  returns is either an extrinsic hash together with a net amount that may be absent,
  or both fields absent.
\<close>

theorem getGlitchInfo_forEach_returns:
  assumes "\<not> list_ex bare_transfer exs"
  shows "(\<exists>n h. getGlitchInfo_forEach t exs (None, None) = Inr (n, Some h)) \<or>
         getGlitchInfo_forEach t exs (None, None) = Inr (None, None)"
  using forEach_last_match [OF assms, of t "(None, None)"]
  by (cases "filter (matches t) exs") simp_all

theorem getGlitchInfo_forEach_returns_witness:
  "\<not> list_ex bare_transfer short_block \<and>
   ((\<exists>n h. getGlitchInfo_forEach ''0xAA'' short_block (None, None) = Inr (n, Some h)) \<or>
    getGlitchInfo_forEach ''0xAA'' short_block (None, None) = Inr (None, None))"
proof -
  have h: "\<not> list_ex bare_transfer short_block"
    by (simp add: short_block_def mk_op_def bare_transfer_def)
  show ?thesis
    using getGlitchInfo_forEach_returns [OF h] h by blast
qed

text \<open>
  C3 as stated includes extrinsics without arguments: on a \<^verbatim>\<open>balances.transfer\<close> call
  that has none, \<^verbatim>\<open>args[0].toString()\<close> throws.
\<close>

theorem getGlitchInfo_forEach_throws_counterexample:
  "getGlitchInfo_forEach ''0xAA'' bare_block (None, None) = Inl TypeError"
  by (simp add: bare_block_def mk_op_def is_transfer_def at_index_def)

text \<open>
  C7 (as amended). If no extrinsic of the block satisfies the predicate (section
  \<^verbatim>\<open>balances\<close>, method \<^verbatim>\<open>transfer\<close>, first argument equal to the target) and every
  \<^verbatim>\<open>balances.transfer\<close> call of the block has at least one argument, the scan returns
  normally with both fields absent.
\<close>

theorem getGlitchInfo_no_match_absent:
  assumes "\<not> list_ex bare_transfer exs" and "\<not> list_ex (matches t) exs"
  shows "getGlitchInfo_forEach t exs (None, None) = Inr (None, None)"
proof -
  from assms(2) have "filter (matches t) exs = []"
    by (simp add: list_ex_iff filter_empty_conv)
  then show ?thesis
    using forEach_last_match [OF assms(1), of t "(None, None)"] by simp
qed

text \<open>The spec's second scenario: the same block with target \<^verbatim>\<open>0xBB\<close>.\<close>

theorem getGlitchInfo_no_match_absent_witness:
  "\<not> list_ex bare_transfer scenario_block \<and> \<not> list_ex (matches ''0xBB'') scenario_block \<and>
   getGlitchInfo_forEach ''0xBB'' scenario_block (None, None) = Inr (None, None)"
proof -
  have h1: "\<not> list_ex bare_transfer scenario_block"
    by (simp add: scenario_block_def mk_op_def bare_transfer_def is_transfer_def)
  have h2: "\<not> list_ex (matches ''0xBB'') scenario_block"
    by (simp add: scenario_block_def mk_op_def matches_def is_transfer_def at_index_def)
  show ?thesis
    using getGlitchInfo_no_match_absent [OF h1 h2] h1 h2 by simp
qed

text \<open>
  C7 as stated fails on a block in which nothing satisfies the predicate and a
  \<^verbatim>\<open>balances.transfer\<close> call has no argument: the scan throws instead of returning.
\<close>

theorem getGlitchInfo_no_match_counterexample:
  "\<not> list_ex (matches ''0xBB'') mixed_block \<and>
   getGlitchInfo_forEach ''0xBB'' mixed_block (None, None) = Inl TypeError"
  by (simp add: mixed_block_def mk_op_def matches_def is_transfer_def at_index_def)

section \<open>Facts about the store\<close>

lemma ids_inj:
  "distinct_ids rows \<Longrightarrow> a \<in> set rows \<Longrightarrow> b \<in> set rows \<Longrightarrow> tx_id a = tx_id b \<Longrightarrow> a = b"
  by (auto simp: distinct_ids_def distinct_map dest: inj_onD)

lemma save_ids: "map tx_id (save tx rows) = map tx_id rows"
  by (simp add: save_def)

lemma save_length: "length (save tx rows) = length rows"
  by (simp add: save_def)

lemma save_other_row:
  "i < length rows \<Longrightarrow> tx_id (rows ! i) \<noteq> tx_id tx \<Longrightarrow> save tx rows ! i = rows ! i"
  by (simp add: save_def)

lemma save_nothing:
  assumes "distinct_ids rows" and "t \<in> set rows"
  shows "save (t\<lparr>net_amount := None, extrinsic_hash := None\<rparr>) rows = rows"
  unfolding save_def
proof (rule map_idI)
  fix r
  assume "r \<in> set rows"
  show "(if tx_id r = tx_id (t\<lparr>net_amount := None, extrinsic_hash := None\<rparr>)
         then t\<lparr>net_amount := None, extrinsic_hash := None,
                 net_amount :=
                   keep (net_amount (t\<lparr>net_amount := None, extrinsic_hash := None\<rparr>))
                     (net_amount r),
                 extrinsic_hash :=
                   keep (extrinsic_hash (t\<lparr>net_amount := None, extrinsic_hash := None\<rparr>))
                     (extrinsic_hash r)\<rparr>
         else r) = r"
  proof (cases "tx_id r = tx_id t")
    case True
    with assms \<open>r \<in> set rows\<close> have "r = t" by (blast intro: ids_inj)
    then show ?thesis by (simp add: keep_def)
  next
    case False
    then show ?thesis by simp
  qed
qed

lemma findOne_Some:
  "findOne eth_tx rows = Some t \<Longrightarrow> t \<in> set rows \<and> tx_eth_hash t = eth_tx"
  by (auto simp: findOne_def find_Some_iff)

section \<open>Claims about \<^verbatim>\<open>GET /api/transactionInfo/:eth_tx\<close>\<close>

lemma transactionInfo_forEach_last:
  "exs \<noteq> [] \<Longrightarrow>
   transactionInfo_forEach exs acc =
     (at_index (op_args (last exs)) 1, Some (op_hash (last exs)))"
  by (induction exs arbitrary: acc) auto

lemma transactionInfo_no_record:
  "findOne eth_tx (store w) = None \<Longrightarrow> transactionInfo getBlock eth_tx w = (Inl TypeError, w)"
  by (simp add: transactionInfo_def)

text \<open>
  C2. The claim describes the branch \<^verbatim>\<open>if (!tx)\<close> of the handler, which answers with
  status 400 and the message \<^verbatim>\<open>No transaction found with id ...\<close>. The handler reads
  \<^verbatim>\<open>tx.extrinsic_hash\<close> before that test, so that for a hash no row carries it throws
  a \<^verbatim>\<open>TypeError\<close> and sends no response: here the table holds one row and the
  request names another hash.
\<close>

theorem transactionInfo_missing_record_throws:
  "findOne ''0xdead'' (store (world_of [tx_done])) = None \<and>
   transactionInfo demo_chain ''0xdead'' (world_of [tx_done]) =
     (Inl TypeError, world_of [tx_done])"
proof -
  have "findOne ''0xdead'' (store (world_of [tx_done])) = None"
    by (simp add: findOne_def world_of_def tx_done_def mk_tx_def)
  then show ?thesis
    by (simp add: transactionInfo_no_record)
qed

text \<open>
  C6. When the row found for the hash is not settled and the node returns a non-empty
  block, the handler answers with status 200 and with the second rendered argument
  (\<^verbatim>\<open>x.at(1)\<close>, absent when the extrinsic has fewer than two arguments) and the hash of
  the block's last extrinsic, whatever its section, method and arguments; this is
  what the unconditional loop computes on every non-empty block.
\<close>

theorem transactionInfo_last_operation:
  assumes "findOne eth_tx (store w) = Some tx" and "\<not> settled tx"
    and "getBlock (tx_glitch_hash tx) = Inr exs" and "exs \<noteq> []"
  shows "transactionInfo_forEach exs (None, None) =
           (at_index (op_args (last exs)) 1, Some (op_hash (last exs))) \<and>
         fst (transactionInfo getBlock eth_tx w) =
           Inr (200, InfoBody (at_index (op_args (last exs)) 1) (Some (op_hash (last exs))))"
  using assms
  by (simp add: transactionInfo_def Let_def transactionInfo_forEach_last)

theorem transactionInfo_last_operation_witness:
  "findOne ''0xE5'' (store (world_of [tx_done, tx_plain])) = Some tx_plain \<and>
   \<not> settled tx_plain \<and>
   demo_chain (tx_glitch_hash tx_plain) = Inr scenario_block \<and> scenario_block \<noteq> [] \<and>
   fst (transactionInfo demo_chain ''0xE5'' (world_of [tx_done, tx_plain])) =
     Inr (200, InfoBody (Some ''999'') (Some ''0x03''))"
proof -
  have h1: "findOne ''0xE5'' (store (world_of [tx_done, tx_plain])) = Some tx_plain"
    by (simp add: findOne_def world_of_def tx_done_def tx_plain_def mk_tx_def)
  have h2: "\<not> settled tx_plain"
    by (simp add: settled_def truthy_def tx_plain_def mk_tx_def)
  have h3: "demo_chain (tx_glitch_hash tx_plain) = Inr scenario_block"
    by (simp add: demo_chain_def tx_plain_def mk_tx_def)
  have h4: "scenario_block \<noteq> []"
    by (simp add: scenario_block_def)
  have "at_index (op_args (last scenario_block)) 1 = Some ''999''"
    and "op_hash (last scenario_block) = ''0x03''"
    by (simp_all add: scenario_block_def mk_op_def at_index_def)
  then show ?thesis
    using transactionInfo_last_operation [where getBlock = demo_chain, OF h1 h2 h3 h4] h1 h2 h3 h4
    by simp
qed

text \<open>
  C9. When the row found for the hash has neither settlement field and the node
  returns a block without extrinsics, the handler answers with status 200 and with both
  \<^verbatim>\<open>netAmount\<close> and \<^verbatim>\<open>extrinsicHash\<close> absent, after one block fetch; the row is saved
  with both fields absent, so the table is as it was.
\<close>

theorem transactionInfo_empty_block:
  assumes "distinct_ids (store w)" and "findOne eth_tx (store w) = Some tx"
    and "net_amount tx = None" and "extrinsic_hash tx = None"
    and "getBlock (tx_glitch_hash tx) = Inr []"
  shows "transactionInfo getBlock eth_tx w =
           (Inr (200, InfoBody None None),
            w\<lparr>node_calls := node_calls w @ [GetBlock (tx_glitch_hash tx)]\<rparr>)"
proof -
  from assms(2) have mem: "tx \<in> set (store w)"
    by (simp add: findOne_Some)
  have unsettled: "\<not> settled tx"
    using assms(3) by (simp add: settled_def truthy_def)
  show ?thesis
    using assms(2,5) unsettled save_nothing [OF assms(1) mem]
    by (simp add: transactionInfo_def Let_def)
qed

theorem transactionInfo_empty_block_witness:
  "distinct_ids (store (world_of [tx_done, tx_empty_block])) \<and>
   findOne ''0xE2'' (store (world_of [tx_done, tx_empty_block])) = Some tx_empty_block \<and>
   net_amount tx_empty_block = None \<and> extrinsic_hash tx_empty_block = None \<and>
   demo_chain (tx_glitch_hash tx_empty_block) = Inr [] \<and>
   transactionInfo demo_chain ''0xE2'' (world_of [tx_done, tx_empty_block]) =
     (Inr (200, InfoBody None None),
      (world_of [tx_done, tx_empty_block])
        \<lparr>node_calls := node_calls (world_of [tx_done, tx_empty_block]) @
           [GetBlock (tx_glitch_hash tx_empty_block)]\<rparr>)"
proof -
  have h1: "distinct_ids (store (world_of [tx_done, tx_empty_block]))"
    by (simp add: distinct_ids_def world_of_def tx_done_def tx_empty_block_def mk_tx_def)
  have h2: "findOne ''0xE2'' (store (world_of [tx_done, tx_empty_block])) = Some tx_empty_block"
    by (simp add: findOne_def world_of_def tx_done_def tx_empty_block_def mk_tx_def)
  have h3: "net_amount tx_empty_block = None" and h4: "extrinsic_hash tx_empty_block = None"
    by (simp_all add: tx_empty_block_def mk_tx_def)
  have h5: "demo_chain (tx_glitch_hash tx_empty_block) = Inr []"
    by (simp add: demo_chain_def tx_empty_block_def mk_tx_def)
  show ?thesis
    using transactionInfo_empty_block [where getBlock = demo_chain, OF h1 h2 h3 h4 h5] h1 h2 h3 h4 h5
    by simp
qed

section \<open>Rows that the handlers leave alone\<close>

text \<open>
  A save made for a row \<open>t\<close> of the table the handler read does not reach another row
  \<open>i\<close> of that table, and keeps every primary key.
\<close>

lemma save_frame:
  assumes "distinct_ids rows0" and "t \<in> set rows0" and "i < length rows0"
    and "t \<noteq> rows0 ! i"
    and "map tx_id rows = map tx_id rows0" and "rows ! i = rows0 ! i"
    and "tx_id t' = tx_id t"
  shows "map tx_id (save t' rows) = map tx_id rows0 \<and> save t' rows ! i = rows0 ! i"
proof -
  have "rows0 ! i \<in> set rows0"
    using assms(3) by simp
  with assms(1,2,4) have "tx_id (rows0 ! i) \<noteq> tx_id t"
    by (metis ids_inj)
  moreover have "length rows = length rows0"
    using assms(5) by (metis length_map)
  ultimately show ?thesis
    using assms(3,5,6,7) by (simp add: save_ids save_other_row)
qed

lemma enrich_frame:
  assumes "distinct_ids rows0" and "t \<in> set rows0" and "i < length rows0"
    and "settled (rows0 ! i)"
    and "map tx_id (store w) = map tx_id rows0" and "store w ! i = rows0 ! i"
  shows "map tx_id (store (enrich getBlock t w)) = map tx_id rows0 \<and>
         store (enrich getBlock t w) ! i = rows0 ! i"
proof (cases "settled t")
  case True
  then show ?thesis
    using assms(5,6) by (simp add: enrich_def)
next
  case False
  with assms(4) have "t \<noteq> rows0 ! i" by auto
  then have "map tx_id (save (t\<lparr>extrinsic_hash := h, net_amount := n\<rparr>) (store w)) = map tx_id rows0 \<and>
             save (t\<lparr>extrinsic_hash := h, net_amount := n\<rparr>) (store w) ! i = rows0 ! i" for n h
    using save_frame [OF assms(1,2,3) _ assms(5,6)] by simp
  then show ?thesis
    using False assms(5,6)
    by (simp add: enrich_def Let_def split: sum.splits prod.splits)
qed

lemma fold_enrich_frame:
  assumes "distinct_ids rows0" and "i < length rows0" and "settled (rows0 ! i)"
  shows "set txs \<subseteq> set rows0 \<Longrightarrow>
         map tx_id (store w) = map tx_id rows0 \<Longrightarrow> store w ! i = rows0 ! i \<Longrightarrow>
         map tx_id (store (fold (enrich getBlock) txs w)) = map tx_id rows0 \<and>
         store (fold (enrich getBlock) txs w) ! i = rows0 ! i"
proof (induction txs arbitrary: w)
  case Nil
  then show ?case by simp
next
  case (Cons t txs)
  from Cons.prems(1) have mem: "t \<in> set rows0" and rest: "set txs \<subseteq> set rows0"
    by simp_all
  have step: "map tx_id (store (enrich getBlock t w)) = map tx_id rows0 \<and>
              store (enrich getBlock t w) ! i = rows0 ! i"
    using enrich_frame [OF assms(1) mem assms(2,3) Cons.prems(2,3)] .
  show ?case
    using Cons.IH [OF rest, of "enrich getBlock t w"] step by simp
qed

lemma find_where_subset: "set (find_where wallet rows) \<subseteq> set rows"
  by (auto simp: find_where_def)

lemma find_paged_subset:
  assumes "find_paged take_v skip_v wallet rows = Inr txs"
  shows "set txs \<subseteq> set rows"
proof -
  have "set (limit_rows l (offset_rows skip_v (find_where wallet rows))) \<subseteq>
          set (find_where wallet rows)" for l
    by (auto simp: limit_rows_def offset_rows_def split: jsnumber.splits
        dest: in_set_takeD in_set_dropD)
  then show ?thesis
    using assms find_where_subset [of wallet rows]
    by (auto simp: find_paged_def split: jsnumber.splits)
qed

lemma transactionHistory_frame:
  assumes "distinct_ids (store w)" and "i < length (store w)" and "settled (store w ! i)"
  shows "map tx_id (store (snd (transactionHistory getBlock wallet w))) = map tx_id (store w) \<and>
         store (snd (transactionHistory getBlock wallet w)) ! i = store w ! i"
  using fold_enrich_frame [where txs = "find_where wallet (store w)" and w = w
      and getBlock = getBlock, OF assms find_where_subset]
  by (simp add: transactionHistory_def Let_def)

lemma fold_enrich_calls:
  "node_calls (fold (enrich getBlock) txs w) =
     node_calls w @ map (\<lambda>t. GetBlock (tx_glitch_hash t)) (filter (\<lambda>t. \<not> settled t) txs)"
  by (induction txs arbitrary: w)
     (auto simp: enrich_def Let_def split: sum.splits prod.splits)


lemma enrich_part000_calls:
  "node_calls (snd (enrich_part000 helper getTransaction ethGetBlock tx w)) =
     node_calls w @ [GetGlitchInfo (tx_id tx)]"
  by (simp add: enrich_part000_def Let_def split: sum.splits)

lemma enrich_part000_guarded:
  assumes "truthy (extrinsic_hash tx) \<or> truthy (net_amount tx)"
  shows "snd (enrich_part000 helper getTransaction ethGetBlock tx w) =
           w\<lparr>node_calls := node_calls w @ [GetGlitchInfo (tx_id tx)]\<rparr>"
  using assms by (auto simp: enrich_part000_def Let_def split: sum.splits)

lemma enrich_part000_frame:
  assumes "distinct_ids rows0" and "t \<in> set rows0" and "i < length rows0"
    and "truthy (extrinsic_hash (rows0 ! i)) \<or> truthy (net_amount (rows0 ! i))"
    and "map tx_id (store w) = map tx_id rows0" and "store w ! i = rows0 ! i"
  shows "map tx_id (store (snd (enrich_part000 helper getTransaction ethGetBlock t w))) =
           map tx_id rows0 \<and>
         store (snd (enrich_part000 helper getTransaction ethGetBlock t w)) ! i = rows0 ! i"
proof (cases "truthy (extrinsic_hash t) \<or> truthy (net_amount t)")
  case True
  then show ?thesis
    using assms(5,6) by (simp add: enrich_part000_guarded)
next
  case False
  with assms(4) have "t \<noteq> rows0 ! i" by auto
  then have "map tx_id (save (t\<lparr>extrinsic_hash := h, net_amount := n\<rparr>) (store w)) = map tx_id rows0 \<and>
             save (t\<lparr>extrinsic_hash := h, net_amount := n\<rparr>) (store w) ! i = rows0 ! i" for n h
    using save_frame [OF assms(1,2,3) _ assms(5,6)] by simp
  then show ?thesis
    using False assms(5,6)
    by (simp add: enrich_part000_def Let_def split: sum.splits)
qed


lemma map_enrich_part000_calls:
  "node_calls (snd (map_enrich_part000 helper getTransaction ethGetBlock txs w)) =
     node_calls w @ map (\<lambda>t. GetGlitchInfo (tx_id t)) txs"
proof (induction txs arbitrary: w)
  case Nil
  then show ?case by simp
next
  case (Cons t txs)
  obtain e w1 where s: "enrich_part000 helper getTransaction ethGetBlock t w = (e, w1)"
    by (cases "enrich_part000 helper getTransaction ethGetBlock t w")
  obtain es w2 where r: "map_enrich_part000 helper getTransaction ethGetBlock txs w1 = (es, w2)"
    by (cases "map_enrich_part000 helper getTransaction ethGetBlock txs w1")
  have "node_calls w1 = node_calls w @ [GetGlitchInfo (tx_id t)]"
    using enrich_part000_calls [of helper getTransaction ethGetBlock t w] s by simp
  moreover have "node_calls w2 = node_calls w1 @ map (\<lambda>t. GetGlitchInfo (tx_id t)) txs"
    using Cons.IH [of w1] r by simp
  ultimately show ?case
    using s r by simp
qed

lemma map_enrich_part000_frame:
  assumes "distinct_ids rows0" and "i < length rows0"
    and "truthy (extrinsic_hash (rows0 ! i)) \<or> truthy (net_amount (rows0 ! i))"
  shows "set txs \<subseteq> set rows0 \<Longrightarrow>
         map tx_id (store w) = map tx_id rows0 \<Longrightarrow> store w ! i = rows0 ! i \<Longrightarrow>
         map tx_id (store (snd (map_enrich_part000 helper getTransaction ethGetBlock txs w))) =
           map tx_id rows0 \<and>
         store (snd (map_enrich_part000 helper getTransaction ethGetBlock txs w)) ! i = rows0 ! i"
proof (induction txs arbitrary: w)
  case Nil
  then show ?case by simp
next
  case (Cons t txs)
  from Cons.prems(1) have mem: "t \<in> set rows0" and rest: "set txs \<subseteq> set rows0"
    by simp_all
  obtain e w1 where s: "enrich_part000 helper getTransaction ethGetBlock t w = (e, w1)"
    by (cases "enrich_part000 helper getTransaction ethGetBlock t w")
  obtain es w2 where r: "map_enrich_part000 helper getTransaction ethGetBlock txs w1 = (es, w2)"
    by (cases "map_enrich_part000 helper getTransaction ethGetBlock txs w1")
  have step: "map tx_id (store w1) = map tx_id rows0 \<and> store w1 ! i = rows0 ! i"
    using enrich_part000_frame [OF assms(1) mem assms(2,3) Cons.prems(2,3),
        of helper getTransaction ethGetBlock] s
    by simp
  have "map tx_id (store w2) = map tx_id rows0 \<and> store w2 ! i = rows0 ! i"
    using Cons.IH [OF rest, of w1] step r by simp
  then show ?case
    using s r by simp
qed

lemma transactionHistory_part000_frame:
  assumes "distinct_ids (store w)" and "i < length (store w)"
    and "truthy (extrinsic_hash (store w ! i)) \<or> truthy (net_amount (store w ! i))"
  shows "map tx_id (store (snd (transactionHistory_part000 helper getTransaction ethGetBlock
                                  wallet query_page query_limit w))) = map tx_id (store w) \<and>
         store (snd (transactionHistory_part000 helper getTransaction ethGetBlock
                       wallet query_page query_limit w)) ! i = store w ! i"
proof (cases "find_paged (number_or 10 query_limit)
                (js_times (number_or 10 query_limit) (number_or 0 query_page)) wallet (store w)")
  case (Inl e)
  then show ?thesis
    by (simp add: transactionHistory_part000_def Let_def)
next
  case (Inr txs)
  have "map tx_id (store (snd (map_enrich_part000 helper getTransaction ethGetBlock txs w))) =
          map tx_id (store w) \<and>
        store (snd (map_enrich_part000 helper getTransaction ethGetBlock txs w)) ! i = store w ! i"
    using map_enrich_part000_frame [where txs = txs and w = w,
        OF assms find_paged_subset [OF Inr]]
    by simp
  then show ?thesis
    using Inr by (simp add: transactionHistory_part000_def Let_def case_prod_beta)
qed

lemma transactionInfo_frame:
  assumes "distinct_ids (store w)" and "i < length (store w)" and "settled (store w ! i)"
  shows "map tx_id (store (snd (transactionInfo getBlock eth_tx w))) = map tx_id (store w) \<and>
         store (snd (transactionInfo getBlock eth_tx w)) ! i = store w ! i"
proof (cases "findOne eth_tx (store w)")
  case None
  then show ?thesis by (simp add: transactionInfo_no_record)
next
  case (Some t)
  then have mem: "t \<in> set (store w)" by (simp add: findOne_Some)
  show ?thesis
  proof (cases "settled t")
    case True
    then show ?thesis using Some by (simp add: transactionInfo_def)
  next
    case False
    with assms(3) have "t \<noteq> store w ! i" by auto
    then have "map tx_id (save (t\<lparr>net_amount := n, extrinsic_hash := h\<rparr>) (store w)) =
                 map tx_id (store w) \<and>
               save (t\<lparr>net_amount := n, extrinsic_hash := h\<rparr>) (store w) ! i = store w ! i" for n h
      using save_frame [OF assms(1) mem assms(2), of "store w"] by simp
    then show ?thesis
      using Some False
      by (simp add: transactionInfo_def Let_def split: sum.splits prod.splits)
  qed
qed

section \<open>Claims about \<^verbatim>\<open>GET /api/transactionHistory/:wallet\<close> and about enrichment\<close>

lemma settled_guarded:
  "settled r \<Longrightarrow> truthy (extrinsic_hash r) \<or> truthy (net_amount r)"
  by (simp add: settled_def)




text \<open>
  C10. In the handler of \<^verbatim>\<open>part_000\<close>, for a row on which exactly one of
  \<^verbatim>\<open>net_amount\<close> and \<^verbatim>\<open>extrinsic_hash\<close> is set (holds a non-empty string, the test the
  guard makes): the step for that row calls the helper and saves nothing, whatever the
  helper answers, and after the whole request the stored row is as it was.
\<close>

theorem transactionHistory_part000_half_set_untouched:
  assumes "distinct_ids (store w)" and "i < length (store w)"
    and "truthy (net_amount (store w ! i)) \<noteq> truthy (extrinsic_hash (store w ! i))"
  shows "snd (enrich_part000 helper getTransaction ethGetBlock (store w ! i) w1) =
           w1\<lparr>node_calls := node_calls w1 @ [GetGlitchInfo (tx_id (store w ! i))]\<rparr> \<and>
         store (snd (transactionHistory_part000 helper getTransaction ethGetBlock wallet
                       query_page query_limit w)) ! i = store w ! i"
proof -
  from assms(3)
  have g: "truthy (extrinsic_hash (store w ! i)) \<or> truthy (net_amount (store w ! i))"
    by auto
  show ?thesis
    using enrich_part000_guarded [OF g] transactionHistory_part000_frame [OF assms(1,2) g]
    by simp
qed

theorem transactionHistory_part000_half_set_untouched_witness:
  "distinct_ids (store (world_of [tx_half, tx_plain])) \<and>
   0 < length (store (world_of [tx_half, tx_plain])) \<and>
   truthy (net_amount (store (world_of [tx_half, tx_plain]) ! 0)) \<noteq>
     truthy (extrinsic_hash (store (world_of [tx_half, tx_plain]) ! 0)) \<and>
   store (snd (transactionHistory_part000 demo_helper no_eth_tx no_eth_block ''0xAA''
                 Absent Absent (world_of [tx_half, tx_plain]))) ! 0 = tx_half"
proof -
  have h1: "distinct_ids (store (world_of [tx_half, tx_plain]))"
    by (simp add: distinct_ids_def world_of_def tx_half_def tx_plain_def mk_tx_def)
  have h2: "0 < length (store (world_of [tx_half, tx_plain]))"
    by (simp add: world_of_def)
  have h3: "truthy (net_amount (store (world_of [tx_half, tx_plain]) ! 0)) \<noteq>
              truthy (extrinsic_hash (store (world_of [tx_half, tx_plain]) ! 0))"
    by (simp add: world_of_def tx_half_def mk_tx_def truthy_def)
  have "store (world_of [tx_half, tx_plain]) ! 0 = tx_half"
    by (simp add: world_of_def)
  then show ?thesis
    using transactionHistory_part000_half_set_untouched [OF h1 h2 h3] h1 h2 h3 by simp
qed

text \<open>
  C4 (as amended). For a stored row with both \<^verbatim>\<open>net_amount\<close> and \<^verbatim>\<open>extrinsic_hash\<close>
  set (non-empty strings), a further request leaves the stored row unchanged, through
  either endpoint and either version of the history handler. The history handler of
  \<^verbatim>\<open>app.ts\<close> fetches a block only for the rows it found that are not settled, and
  \<^verbatim>\<open>transactionInfo\<close>, when that row is the one found, answers with the stored values
  and makes no node call at all. The history handler of \<^verbatim>\<open>part_000\<close> does call
  \<^verbatim>\<open>getGlitchInfo(tx, api)\<close> for every row of the page, settled or not.
\<close>

theorem settled_row_kept:
  assumes "distinct_ids (store w)" and "i < length (store w)" and "settled (store w ! i)"
  shows "store (snd (transactionHistory getBlock wallet w)) ! i = store w ! i \<and>
         node_calls (snd (transactionHistory getBlock wallet w)) =
           node_calls w @
           map (\<lambda>t. GetBlock (tx_glitch_hash t))
             (filter (\<lambda>t. \<not> settled t) (find_where wallet (store w))) \<and>
         store (snd (transactionHistory_part000 helper getTransaction ethGetBlock wallet
                       query_page query_limit w)) ! i = store w ! i \<and>
         node_calls (snd (transactionHistory_part000 helper getTransaction ethGetBlock wallet
                            query_page query_limit w)) =
           node_calls w @
           map (\<lambda>t. GetGlitchInfo (tx_id t))
             (case find_paged (number_or 10 query_limit)
                     (js_times (number_or 10 query_limit) (number_or 0 query_page))
                     wallet (store w) of
                Inl e \<Rightarrow> []
              | Inr txs \<Rightarrow> txs) \<and>
         store (snd (transactionInfo getBlock eth_tx w)) ! i = store w ! i \<and>
         (findOne eth_tx (store w) = Some (store w ! i) \<longrightarrow>
            transactionInfo getBlock eth_tx w =
              (Inr (200, InfoBody (net_amount (store w ! i)) (extrinsic_hash (store w ! i))), w))"
proof -
  have a: "store (snd (transactionHistory getBlock wallet w)) ! i = store w ! i"
    using transactionHistory_frame [OF assms] by simp
  have b: "node_calls (snd (transactionHistory getBlock wallet w)) =
             node_calls w @
             map (\<lambda>t. GetBlock (tx_glitch_hash t))
               (filter (\<lambda>t. \<not> settled t) (find_where wallet (store w)))"
    by (simp add: transactionHistory_def Let_def fold_enrich_calls)
  have c: "store (snd (transactionHistory_part000 helper getTransaction ethGetBlock wallet
                         query_page query_limit w)) ! i = store w ! i"
    using transactionHistory_part000_frame [OF assms(1,2) settled_guarded [OF assms(3)]]
    by simp
  have d: "node_calls (snd (transactionHistory_part000 helper getTransaction ethGetBlock wallet
                              query_page query_limit w)) =
             node_calls w @
             map (\<lambda>t. GetGlitchInfo (tx_id t))
               (case find_paged (number_or 10 query_limit)
                       (js_times (number_or 10 query_limit) (number_or 0 query_page))
                       wallet (store w) of
                  Inl e \<Rightarrow> []
                | Inr txs \<Rightarrow> txs)"
    by (simp add: transactionHistory_part000_def Let_def case_prod_beta
        map_enrich_part000_calls split: sum.splits)
  have e: "store (snd (transactionInfo getBlock eth_tx w)) ! i = store w ! i"
    using transactionInfo_frame [OF assms] by simp
  have f: "transactionInfo getBlock eth_tx w =
             (Inr (200, InfoBody (net_amount (store w ! i)) (extrinsic_hash (store w ! i))), w)"
    if "findOne eth_tx (store w) = Some (store w ! i)"
    using that assms(3) by (simp add: transactionInfo_def)
  from a b c d e f show ?thesis by blast
qed

text \<open>
  A table with a settled row and a plain one: the settled row stays, the history
  handler of \<^verbatim>\<open>app.ts\<close> fetches one block (for the plain row), and
  \<^verbatim>\<open>transactionInfo\<close> for the settled row changes nothing.
\<close>

theorem settled_row_kept_witness:
  "distinct_ids (store (world_of [tx_done, tx_plain])) \<and>
   0 < length (store (world_of [tx_done, tx_plain])) \<and>
   settled (store (world_of [tx_done, tx_plain]) ! 0) \<and>
   findOne ''0xE1'' (store (world_of [tx_done, tx_plain])) =
     Some (store (world_of [tx_done, tx_plain]) ! 0) \<and>
   store (snd (transactionHistory demo_chain ''0xAA'' (world_of [tx_done, tx_plain]))) ! 0 = tx_done \<and>
   node_calls (snd (transactionHistory demo_chain ''0xAA'' (world_of [tx_done, tx_plain]))) =
     [GetBlock ''0xB1''] \<and>
   store (snd (transactionHistory_part000 demo_helper no_eth_tx no_eth_block ''0xAA''
                 Absent Absent (world_of [tx_done, tx_plain]))) ! 0 = tx_done \<and>
   transactionInfo demo_chain ''0xE1'' (world_of [tx_done, tx_plain]) =
     (Inr (200, InfoBody (Some ''100'') (Some ''0x02'')), world_of [tx_done, tx_plain])"
proof -
  let ?w = "world_of [tx_done, tx_plain]"
  have h1: "distinct_ids (store ?w)"
    by (simp add: distinct_ids_def world_of_def tx_done_def tx_plain_def mk_tx_def)
  have h2: "0 < length (store ?w)"
    by (simp add: world_of_def)
  have h3: "settled (store ?w ! 0)"
    by (simp add: world_of_def tx_done_def mk_tx_def settled_def truthy_def)
  have h4: "findOne ''0xE1'' (store ?w) = Some (store ?w ! 0)"
    by (simp add: findOne_def world_of_def tx_done_def mk_tx_def)
  have row: "store ?w ! 0 = tx_done"
    by (simp add: world_of_def)
  have vals: "net_amount tx_done = Some ''100''" "extrinsic_hash tx_done = Some ''0x02''"
    by (simp_all add: tx_done_def mk_tx_def)
  have sel: "filter (\<lambda>t. \<not> settled t) (find_where ''0xAA'' (store ?w)) = [tx_plain]"
    by (simp add: find_where_def world_of_def tx_done_def tx_plain_def mk_tx_def
        settled_def truthy_def)
  have gh: "tx_glitch_hash tx_plain = ''0xB1''"
    by (simp add: tx_plain_def mk_tx_def)
  have nc: "node_calls ?w = []"
    by (simp add: world_of_def)
  show ?thesis
    using settled_row_kept [where w = ?w and i = 0 and getBlock = demo_chain
        and wallet = "''0xAA''" and eth_tx = "''0xE1''" and helper = demo_helper
        and getTransaction = no_eth_tx and ethGetBlock = no_eth_block
        and query_page = Absent and query_limit = Absent, OF h1 h2 h3]
      h1 h2 h3 h4 row vals sel gh nc
    by simp
qed

text \<open>
  C4 as stated fails for the history handler of \<^verbatim>\<open>part_000\<close>: on a table whose only
  row is settled, the request hands the row and the node connection to
  \<^verbatim>\<open>getGlitchInfo\<close> again.
\<close>

theorem transactionHistory_part000_asks_again_counterexample:
  "settled tx_done \<and> node_calls (world_of [tx_done]) = [] \<and>
   node_calls (snd (transactionHistory_part000 demo_helper no_eth_tx no_eth_block ''0xAA''
                      Absent Absent (world_of [tx_done]))) = [GetGlitchInfo 1]"
  by (simp add: transactionHistory_part000_def find_paged_def find_where_def number_or_def
      js_times_def limit_rows_def offset_rows_def enrich_part000_def Let_def world_of_def
      tx_done_def mk_tx_def demo_helper_def no_eth_tx_def settled_def truthy_def)

section \<open>Writes in flight\<close>

text \<open>Every change a handler makes to the table is the landing of the writes it issued.\<close>

lemma update_order:
  "(t::Tx)\<lparr>extrinsic_hash := h, net_amount := n\<rparr> = t\<lparr>net_amount := n, extrinsic_hash := h\<rparr>"
  by (cases t) simp

lemma enrich_store:
  "store (enrich getBlock t w) = fold apply_write (history_write getBlock t) (store w)"
  by (simp add: enrich_def history_write_def apply_write_def Let_def update_order
      split: sum.splits prod.splits)

lemma fold_enrich_store:
  "store (fold (enrich getBlock) txs w) =
     fold apply_write (concat (map (history_write getBlock) txs)) (store w)"
  by (induction txs arbitrary: w) (simp_all add: enrich_store)

lemma enrich_part000_store:
  "store (snd (enrich_part000 helper getTransaction ethGetBlock t w)) =
     fold apply_write (part000_write helper t) (store w)"
  by (simp add: enrich_part000_def part000_write_def apply_write_def Let_def update_order
      split: sum.splits)

lemma map_enrich_part000_store:
  "store (snd (map_enrich_part000 helper getTransaction ethGetBlock txs w)) =
     fold apply_write (concat (map (part000_write helper) txs)) (store w)"
proof (induction txs arbitrary: w)
  case Nil
  then show ?case by simp
next
  case (Cons t txs)
  obtain e w1 where s: "enrich_part000 helper getTransaction ethGetBlock t w = (e, w1)"
    by (cases "enrich_part000 helper getTransaction ethGetBlock t w")
  have "store w1 = fold apply_write (part000_write helper t) (store w)"
    using enrich_part000_store [of helper getTransaction ethGetBlock t w] s by simp
  then show ?case
    using Cons.IH [of w1] s by (simp add: case_prod_beta)
qed

lemma transactionInfo_store:
  "store (snd (transactionInfo getBlock eth_tx w)) =
     fold apply_write (info_writes getBlock eth_tx (store w)) (store w)"
  by (simp add: transactionInfo_def info_writes_def apply_write_def Let_def
      split: option.splits sum.splits prod.splits)

text \<open>Every write issued was read unsettled, and both loops assign an amount only with a hash.\<close>

lemma getGlitchInfo_forEach_paired:
  "getGlitchInfo_forEach t exs acc = Inr (n, h) \<Longrightarrow> (fst acc \<noteq> None \<longrightarrow> snd acc \<noteq> None) \<Longrightarrow>
   n \<noteq> None \<longrightarrow> h \<noteq> None"
  by (induction exs arbitrary: acc) (auto split: if_splits option.splits)

lemma transactionInfo_forEach_paired:
  "transactionInfo_forEach exs acc = (n, h) \<Longrightarrow> (fst acc \<noteq> None \<longrightarrow> snd acc \<noteq> None) \<Longrightarrow>
   n \<noteq> None \<longrightarrow> h \<noteq> None"
  by (induction exs arbitrary: acc) auto

lemma history_write_unsettled: "list_all read_unsettled (history_write getBlock t)"
  by (simp add: history_write_def read_unsettled_def split: sum.splits prod.splits)

lemma history_write_paired: "list_all write_paired (history_write getBlock t)"
proof (cases "getGlitchInfo getBlock (tx_glitch_hash t) (to_glitch_address t)")
  case (Inl e)
  then show ?thesis by (simp add: history_write_def)
next
  case (Inr r)
  obtain n h where r: "r = (n, h)" by (cases r)
  have "n \<noteq> None \<longrightarrow> h \<noteq> None"
    using Inr r getGlitchInfo_forEach_paired [of "to_glitch_address t" _ "(None, None)" n h]
    by (auto simp: getGlitchInfo_def split: sum.splits)
  then show ?thesis
    using Inr r by (simp add: history_write_def write_paired_def)
qed

lemma part000_write_unsettled: "list_all read_unsettled (part000_write helper t)"
  by (auto simp: part000_write_def read_unsettled_def settled_def split: sum.splits)

lemma part000_write_paired:
  assumes "\<And>tx gi. helper tx = Inr gi \<Longrightarrow> netAmount gi \<noteq> None \<Longrightarrow> extrinsicHash gi \<noteq> None"
  shows "list_all write_paired (part000_write helper t)"
  using assms by (auto simp: part000_write_def write_paired_def split: sum.splits)

lemma info_writes_unsettled: "list_all read_unsettled (info_writes getBlock eth_tx rows)"
  by (simp add: info_writes_def read_unsettled_def
      split: option.splits sum.splits prod.splits)

lemma info_writes_paired: "list_all write_paired (info_writes getBlock eth_tx rows)"
proof -
  have "n \<noteq> None \<longrightarrow> h \<noteq> None" if "transactionInfo_forEach exs (None, None) = (n, h)"
    for exs n h
    using transactionInfo_forEach_paired [OF that] by simp
  then show ?thesis
    by (auto simp: info_writes_def write_paired_def
        split: option.splits sum.splits prod.splits)
qed

lemma writes_of_unsettled: "list_all read_unsettled (writes_of getBlock helper r rows)"
proof (cases r)
  case (History wallet)
  then show ?thesis
    using history_write_unsettled [of getBlock] by (auto simp: list_all_iff)
next
  case (HistoryPaged wallet p l)
  then show ?thesis
    using part000_write_unsettled [of helper] by (auto simp: list_all_iff split: sum.splits)
next
  case (Info eth_tx)
  then show ?thesis
    by (simp add: info_writes_unsettled)
qed

lemma writes_of_paired:
  assumes "\<And>tx gi. helper tx = Inr gi \<Longrightarrow> netAmount gi \<noteq> None \<Longrightarrow> extrinsicHash gi \<noteq> None"
  shows "list_all write_paired (writes_of getBlock helper r rows)"
proof (cases r)
  case (History wallet)
  then show ?thesis
    using history_write_paired [of getBlock] by (auto simp: list_all_iff)
next
  case (HistoryPaged wallet p l)
  then show ?thesis
    using part000_write_paired [OF assms] by (auto simp: list_all_iff split: sum.splits)
next
  case (Info eth_tx)
  then show ?thesis
    by (simp add: info_writes_paired)
qed

lemma save_paired:
  assumes "list_all amount_has_hash rows"
    and "net_amount t' \<noteq> None \<longrightarrow> extrinsic_hash t' \<noteq> None"
  shows "list_all amount_has_hash (save t' rows)"
  using assms
  by (auto simp: save_def list_all_iff amount_has_hash_def keep_def split: option.splits)

lemma apply_write_paired:
  "write_paired p \<Longrightarrow> list_all amount_has_hash rows \<Longrightarrow>
   list_all amount_has_hash (apply_write p rows)"
  by (simp add: apply_write_def write_paired_def save_paired)

lemma list_all_without:
  "list_all P xs \<Longrightarrow> list_all P (take k xs @ drop (Suc k) xs)"
  by (auto simp: list_all_iff dest: in_set_takeD in_set_dropD)

lemma exec_unsettled:
  "list_all read_unsettled (in_flight s) \<Longrightarrow>
   list_all read_unsettled (in_flight (exec getBlock helper evs s))"
proof (induction evs arbitrary: s)
  case Nil
  then show ?case by (simp add: exec_def)
next
  case (Cons ev evs)
  have "list_all read_unsettled (in_flight (exec_event getBlock helper ev s))"
  proof (cases ev)
    case (Arrive r)
    then show ?thesis
      using Cons.prems writes_of_unsettled [of getBlock helper r "table s"] by simp
  next
    case (Land k)
    then show ?thesis
      using Cons.prems list_all_without [of read_unsettled "in_flight s" k] by simp
  qed
  from Cons.IH [OF this] show ?case
    by (simp add: exec_def)
qed

lemma exec_paired:
  assumes "\<And>tx gi. helper tx = Inr gi \<Longrightarrow> netAmount gi \<noteq> None \<Longrightarrow> extrinsicHash gi \<noteq> None"
  shows "list_all amount_has_hash (table s) \<Longrightarrow> list_all write_paired (in_flight s) \<Longrightarrow>
         list_all amount_has_hash (table (exec getBlock helper evs s)) \<and>
         list_all write_paired (in_flight (exec getBlock helper evs s))"
proof (induction evs arbitrary: s)
  case Nil
  then show ?case by (simp add: exec_def)
next
  case (Cons ev evs)
  have "list_all amount_has_hash (table (exec_event getBlock helper ev s)) \<and>
        list_all write_paired (in_flight (exec_event getBlock helper ev s))"
  proof (cases ev)
    case (Arrive r)
    then show ?thesis
      using Cons.prems
        writes_of_paired [where helper = helper and getBlock = getBlock and r = r
          and rows = "table s", OF assms]
      by simp
  next
    case (Land k)
    show ?thesis
    proof (cases "k < length (in_flight s)")
      case True
      then have "write_paired (in_flight s ! k)"
        using Cons.prems(2) by (simp add: list_all_length)
      then show ?thesis
        using Land True Cons.prems list_all_without [of write_paired "in_flight s" k]
        by (simp add: apply_write_paired)
    next
      case False
      then show ?thesis
        using Land Cons.prems by simp
    qed
  qed
  then have "list_all amount_has_hash (table (exec getBlock helper evs
                                                (exec_event getBlock helper ev s))) \<and>
             list_all write_paired (in_flight (exec getBlock helper evs
                                                 (exec_event getBlock helper ev s)))"
    using Cons.IH by blast
  then show ?case
    by (simp add: exec_def)
qed

text \<open>
  A late write replaces a settled row. The history request and the
  \<^verbatim>\<open>transactionInfo\<close> request both read the row before either write lands; the first
  landing settles the row with the values of the transfer, the second replaces them by
  the values of the block's last extrinsic.
\<close>

lemma late_write_replaces_settled_row:
  "table (exec demo_chain demo_helper (take 3 late_write_schedule) (sched_of [tx_race])) =
     [tx_race\<lparr>net_amount := Some ''100'', extrinsic_hash := Some ''0x02''\<rparr>] \<and>
   table (exec demo_chain demo_helper late_write_schedule (sched_of [tx_race])) =
     [tx_race\<lparr>net_amount := Some ''42'', extrinsic_hash := Some ''0x0d''\<rparr>]"
  by (simp add: exec_def late_write_schedule_def sched_of_def tx_race_def mk_tx_def
      find_where_def history_write_def info_writes_def findOne_def getGlitchInfo_def
      is_transfer_def settled_def truthy_def demo_chain_def race_block_def mk_op_def
      at_index_def apply_write_def save_def keep_def)

text \<open>
  C5 (as amended). Every change that \<^verbatim>\<open>transactionInfo\<close> and the two history handlers
  make to the table is the landing of the writes the request issued, each of which
  assigns \<^verbatim>\<open>net_amount\<close> and \<^verbatim>\<open>extrinsic_hash\<close> together in one save, from one
  extraction result. On every schedule of arriving requests and landing writes, every
  write in flight was issued for a row that was not settled when the request read it;
  and if every row that has a net amount also has an extrinsic hash (as when rows start
  with both absent), and the helper of \<^verbatim>\<open>part_000\<close> never returns a net amount without
  an extrinsic hash, then this still holds of every row afterwards, and every write
  in flight carries a hash with its amount.
\<close>

theorem writes_paired_on_every_schedule:
  "store (snd (transactionInfo getBlock eth_tx w)) =
     fold apply_write (writes_of getBlock helper (Info eth_tx) (store w)) (store w) \<and>
   store (snd (transactionHistory getBlock wallet w)) =
     fold apply_write (writes_of getBlock helper (History wallet) (store w)) (store w) \<and>
   store (snd (transactionHistory_part000 helper getTransaction ethGetBlock wallet
                 query_page query_limit w)) =
     fold apply_write
       (writes_of getBlock helper (HistoryPaged wallet query_page query_limit) (store w))
       (store w) \<and>
   (list_all read_unsettled (in_flight s) \<longrightarrow>
      list_all read_unsettled (in_flight (exec getBlock helper evs s))) \<and>
   ((\<forall>tx gi. helper tx = Inr gi \<longrightarrow> netAmount gi \<noteq> None \<longrightarrow> extrinsicHash gi \<noteq> None) \<and>
    list_all amount_has_hash (table s) \<and> list_all write_paired (in_flight s) \<longrightarrow>
      list_all amount_has_hash (table (exec getBlock helper evs s)) \<and>
      list_all write_paired (in_flight (exec getBlock helper evs s)))"
proof -
  have a: "store (snd (transactionInfo getBlock eth_tx w)) =
             fold apply_write (writes_of getBlock helper (Info eth_tx) (store w)) (store w)"
    by (simp add: transactionInfo_store)
  have b: "store (snd (transactionHistory getBlock wallet w)) =
             fold apply_write (writes_of getBlock helper (History wallet) (store w)) (store w)"
    by (simp add: transactionHistory_def Let_def fold_enrich_store)
  have c: "store (snd (transactionHistory_part000 helper getTransaction ethGetBlock wallet
                         query_page query_limit w)) =
             fold apply_write
               (writes_of getBlock helper (HistoryPaged wallet query_page query_limit) (store w))
               (store w)"
    by (simp add: transactionHistory_part000_def Let_def case_prod_beta
        map_enrich_part000_store split: sum.splits)
  have d: "list_all read_unsettled (in_flight (exec getBlock helper evs s))"
    if "list_all read_unsettled (in_flight s)"
    using exec_unsettled [OF that] .
  have e: "list_all amount_has_hash (table (exec getBlock helper evs s)) \<and>
           list_all write_paired (in_flight (exec getBlock helper evs s))"
    if "\<forall>tx gi. helper tx = Inr gi \<longrightarrow> netAmount gi \<noteq> None \<longrightarrow> extrinsicHash gi \<noteq> None"
      and "list_all amount_has_hash (table s)" and "list_all write_paired (in_flight s)"
    using exec_paired [where helper = helper and s = s and getBlock = getBlock and evs = evs]
      that
    by blast
  from a b c d e show ?thesis by blast
qed

text \<open>
  The schedule in which both requests read the plain row before either write lands:
  two writes are issued, both land, and the stored row has an amount and a hash.
\<close>

theorem writes_paired_on_every_schedule_witness:
  "list_all read_unsettled (in_flight (sched_of [tx_race])) \<and>
   list_all amount_has_hash (table (sched_of [tx_race])) \<and>
   list_all write_paired (in_flight (sched_of [tx_race])) \<and>
   length (in_flight (exec demo_chain demo_helper (take 2 late_write_schedule)
                        (sched_of [tx_race]))) = 2 \<and>
   list_all read_unsettled
     (in_flight (exec demo_chain demo_helper (take 2 late_write_schedule) (sched_of [tx_race]))) \<and>
   list_all write_paired
     (in_flight (exec demo_chain demo_helper (take 2 late_write_schedule) (sched_of [tx_race]))) \<and>
   list_all amount_has_hash
     (table (exec demo_chain demo_helper late_write_schedule (sched_of [tx_race]))) \<and>
   store (snd (transactionInfo demo_chain ''0xE6'' (world_of [tx_race]))) =
     fold apply_write (writes_of demo_chain demo_helper (Info ''0xE6'') [tx_race]) [tx_race]"
proof -
  let ?s = "sched_of [tx_race]"
  have h0: "\<forall>tx gi. demo_helper tx = Inr gi \<longrightarrow> netAmount gi \<noteq> None \<longrightarrow> extrinsicHash gi \<noteq> None"
    by (auto simp: demo_helper_def)
  have h1: "list_all read_unsettled (in_flight ?s)" and h3: "list_all write_paired (in_flight ?s)"
    by (simp_all add: sched_of_def)
  have h2: "list_all amount_has_hash (table ?s)"
    by (simp add: sched_of_def amount_has_hash_def tx_race_def mk_tx_def)
  have len: "length (in_flight (exec demo_chain demo_helper (take 2 late_write_schedule) ?s)) = 2"
    by (simp add: exec_def late_write_schedule_def sched_of_def tx_race_def mk_tx_def
        find_where_def history_write_def info_writes_def findOne_def getGlitchInfo_def
        is_transfer_def settled_def truthy_def demo_chain_def race_block_def mk_op_def
        at_index_def)
  have st: "store (world_of [tx_race]) = [tx_race]"
    by (simp add: world_of_def)
  note short = writes_paired_on_every_schedule [where s = ?s and helper = demo_helper
      and getBlock = demo_chain and evs = "take 2 late_write_schedule"
      and w = "world_of [tx_race]" and eth_tx = "''0xE6''"]
  note full = writes_paired_on_every_schedule [where s = ?s and helper = demo_helper
      and getBlock = demo_chain and evs = late_write_schedule]
  show ?thesis
    using short full h0 h1 h2 h3 len st by simp
qed

text \<open>
  C5 as stated fails: the two fields are assigned together, but the values assigned
  need not both exist. For a row with neither field and a block whose last extrinsic
  has a single argument, \<^verbatim>\<open>transactionInfo\<close> stores an extrinsic hash and no net
  amount.
\<close>

theorem transactionInfo_hash_without_amount_counterexample:
  "net_amount tx_inherent = None \<and> extrinsic_hash tx_inherent = None \<and>
   map net_amount (store (snd (transactionInfo demo_chain ''0xE3'' (world_of [tx_inherent])))) =
     [None] \<and>
   map extrinsic_hash (store (snd (transactionInfo demo_chain ''0xE3'' (world_of [tx_inherent])))) =
     [Some ''0x0a'']"
  by (simp add: transactionInfo_def findOne_def settled_def truthy_def save_def keep_def
      at_index_def Let_def world_of_def tx_inherent_def mk_tx_def demo_chain_def
      inherent_block_def mk_op_def)

end
